theory Spec2Isabelle
  imports Complex_Main
begin

section \<open>The persisted data: conversations and messages\<close>

text \<open>
  The schema is the migration that creates \<^verbatim>\<open>public.conversations\<close> and
  \<^verbatim>\<open>public.messages\<close>. A UUID is kept as the text the client sends; a timestamp is a
  natural number read off the database clock.
\<close>

type_synonym uuid = string

record conversation_row =
  conv_id :: uuid
  conv_title :: string
  conv_created_at :: nat
  conv_updated_at :: nat

text \<open>
  Modelled from the spec: the owning-user column of a message. The migration under
  \<^verbatim>\<open>src/\<close> declares \<^verbatim>\<open>id, conversation_id, content, role, created_at\<close>; the
  relay writes and filters on \<^verbatim>\<open>user_id\<close>, and the spec's data model lists the owning
  user among the fields of a Message. The column is taken as nullable.
  The generated \<^verbatim>\<open>id\<close> (\<^verbatim>\<open>gen_random_uuid()\<close>) is a fresh number drawn from a
  counter; the relay never reads it.
\<close>

record message_row =
  msg_id :: nat
  msg_conversation_id :: uuid
  msg_content :: string
  msg_role :: string
  msg_created_at :: nat
  msg_user_id :: "uuid option"

record database =
  conversations :: "conversation_row list"
  messages :: "message_row list"
  now :: nat
  next_id :: nat

definition empty_db :: database where
  "empty_db = \<lparr>conversations = [], messages = [], now = 0, next_id = 0\<rparr>"

text \<open>The columns an \<^verbatim>\<open>insert\<close> into \<^verbatim>\<open>messages\<close> may supply; an absent or
  \<^verbatim>\<open>undefined\<close> value is \<open>None\<close> and reaches the table as NULL.\<close>

record message_insert =
  ins_conversation_id :: "uuid option"
  ins_content :: "string option"
  ins_role :: "string option"
  ins_user_id :: "uuid option"

datatype db_error =
    NotNullViolation string
  | CheckViolation string
  | ForeignKeyViolation string
  | UniqueViolation string
  | ConnectionFault string

text \<open>\<^verbatim>\<open>role TEXT NOT NULL CHECK (role IN ('user', 'assistant'))\<close>\<close>

definition role_check :: "string \<Rightarrow> bool" where
  "role_check r = (r = ''user'' \<or> r = ''assistant'')"

definition conversation_exists :: "uuid \<Rightarrow> database \<Rightarrow> bool" where
  "conversation_exists cid d = (cid \<in> set (map conv_id (conversations d)))"

text \<open>
  \<^verbatim>\<open>INSERT INTO public.messages\<close>: the NOT NULL constraints, the CHECK on the role and
  the foreign key to \<^verbatim>\<open>conversations(id)\<close> each reject the row and leave the table as
  it was; otherwise the row is appended with the defaults \<^verbatim>\<open>gen_random_uuid()\<close> and
  \<^verbatim>\<open>now()\<close>, and the clock moves on.
\<close>

definition insert_message :: "message_insert \<Rightarrow> database \<Rightarrow> db_error + database" where
  "insert_message p d =
    (case ins_conversation_id p of
       None \<Rightarrow> Inl (NotNullViolation ''conversation_id'')
     | Some cid \<Rightarrow>
    (case ins_content p of
       None \<Rightarrow> Inl (NotNullViolation ''content'')
     | Some c \<Rightarrow>
    (case ins_role p of
       None \<Rightarrow> Inl (NotNullViolation ''role'')
     | Some r \<Rightarrow>
       if \<not> role_check r then Inl (CheckViolation ''messages_role_check'')
       else if \<not> conversation_exists cid d
         then Inl (ForeignKeyViolation ''messages_conversation_id_fkey'')
       else Inr (d\<lparr>messages := messages d @
                     [\<lparr>msg_id = next_id d, msg_conversation_id = cid, msg_content = c,
                       msg_role = r, msg_created_at = now d, msg_user_id = ins_user_id p\<rparr>],
                   now := now d + 1,
                   next_id := next_id d + 1\<rparr>))))"

text \<open>\<^verbatim>\<open>INSERT INTO public.conversations\<close> with an explicit id: the primary key rejects
  a second row with the same id.\<close>

definition insert_conversation :: "uuid \<Rightarrow> string \<Rightarrow> database \<Rightarrow> db_error + database" where
  "insert_conversation cid t d =
    (if conversation_exists cid d then Inl (UniqueViolation ''conversations_pkey'')
     else Inr (d\<lparr>conversations := conversations d @
                   [\<lparr>conv_id = cid, conv_title = t,
                     conv_created_at = now d, conv_updated_at = now d\<rparr>],
                 now := now d + 1\<rparr>))"

text \<open>\<^verbatim>\<open>DELETE FROM public.conversations WHERE id = cid\<close>; the foreign key of
  \<^verbatim>\<open>messages.conversation_id\<close> is declared \<^verbatim>\<open>ON DELETE CASCADE\<close>, so the messages
  of the deleted conversation go with it.\<close>

definition delete_conversation :: "uuid \<Rightarrow> database \<Rightarrow> database" where
  "delete_conversation cid d =
    d\<lparr>conversations := filter (\<lambda>c. conv_id c \<noteq> cid) (conversations d),
      messages := filter (\<lambda>m. msg_conversation_id m \<noteq> cid) (messages d)\<rparr>"

text \<open>\<^verbatim>\<open>DELETE FROM public.messages WHERE id = mid\<close>\<close>

definition delete_message :: "nat \<Rightarrow> database \<Rightarrow> database" where
  "delete_message mid d = d\<lparr>messages := filter (\<lambda>m. msg_id m \<noteq> mid) (messages d)\<rparr>"

datatype db_op =
    InsertConversation uuid string
  | InsertMessage message_insert
  | DeleteConversation uuid
  | DeleteMessage nat

text \<open>A statement that the database rejects leaves the tables unchanged.\<close>

fun exec_op :: "database \<Rightarrow> db_op \<Rightarrow> database" where
  "exec_op d (InsertConversation cid t) =
     (case insert_conversation cid t d of Inl _ \<Rightarrow> d | Inr d' \<Rightarrow> d')"
| "exec_op d (InsertMessage p) =
     (case insert_message p d of Inl _ \<Rightarrow> d | Inr d' \<Rightarrow> d')"
| "exec_op d (DeleteConversation cid) = delete_conversation cid d"
| "exec_op d (DeleteMessage mid) = delete_message mid d"

definition run_ops :: "db_op list \<Rightarrow> database" where
  "run_ops ops = foldl exec_op empty_db ops"

text \<open>The number of conversation rows a message's foreign key points at.\<close>

definition parents :: "message_row \<Rightarrow> database \<Rightarrow> conversation_row list" where
  "parents m d = filter (\<lambda>c. conv_id c = msg_conversation_id m) (conversations d)"

definition referential_integrity :: "database \<Rightarrow> bool" where
  "referential_integrity d =
     (distinct (map conv_id (conversations d)) \<and>
      (\<forall>m \<in> set (messages d). length (parents m d) = 1))"

text \<open>Every stored message has one of the two roles.\<close>

definition valid_roles :: "database \<Rightarrow> bool" where
  "valid_roles d = (\<forall>m \<in> set (messages d). msg_role m = ''user'' \<or> msg_role m = ''assistant'')"

subsection \<open>Row level security\<close>

text \<open>
  The migration under \<^verbatim>\<open>src/\<close> enables row level security on both tables and, for
  a schema that has no owner column yet, allows every access \<^verbatim>\<open>USING (true)\<close>
  ("public for now since no auth yet"). The policy that applies once messages have an
  owner belongs to the migration that adds the owner, which is not under \<^verbatim>\<open>src/\<close>.
\<close>



section \<open>The relay function\<close>

subsection \<open>JavaScript values the relay handles\<close>

text \<open>A string that may be \<^verbatim>\<open>undefined\<close> or \<^verbatim>\<open>null\<close> is a \<open>string option\<close>;
  it is truthy when it is present and not empty.\<close>

definition truthy :: "string option \<Rightarrow> bool" where
  "truthy s = (case s of None \<Rightarrow> False | Some v \<Rightarrow> v \<noteq> [])"

text \<open>\<^verbatim>\<open>s || d\<close> on strings\<close>

definition or_else :: "string option \<Rightarrow> string \<Rightarrow> string" where
  "or_else s d = (case s of None \<Rightarrow> d | Some v \<Rightarrow> if v = [] then d else v)"

text \<open>\<^verbatim>\<open>s.replace(pat, rep)\<close> with a string pattern: the first occurrence only.\<close>

fun replace_first :: "string \<Rightarrow> string \<Rightarrow> string \<Rightarrow> string" where
  "replace_first pat rep [] = (if pat = [] then rep else [])"
| "replace_first pat rep (c # cs) =
     (if take (length pat) (c # cs) = pat then rep @ drop (length pat) (c # cs)
      else c # replace_first pat rep cs)"

definition startsWith :: "string \<Rightarrow> string \<Rightarrow> bool" where
  "startsWith s p = (take (length p) s = p)"

text \<open>\<^verbatim>\<open>s.split(c)\<close> for a one-character separator\<close>

fun split_on :: "char \<Rightarrow> string \<Rightarrow> string list" where
  "split_on c [] = [[]]"
| "split_on c (x # xs) =
     (if x = c then [] # split_on c xs
      else (case split_on c xs of [] \<Rightarrow> [[x]] | p # ps \<Rightarrow> (x # p) # ps))"

text \<open>\<^verbatim>\<open>xs[i]\<close>: \<^verbatim>\<open>undefined\<close> out of range\<close>

definition nth_opt :: "'a list \<Rightarrow> nat \<Rightarrow> 'a option" where
  "nth_opt xs i = (if i < length xs then Some (xs ! i) else None)"

text \<open>The decimal text of a number, as a template literal prints it.\<close>

fun string_of_nat :: "nat \<Rightarrow> string" where
  "string_of_nat n =
     (if n < 10 then [''0123456789'' ! n]
      else string_of_nat (n div 10) @ [''0123456789'' ! (n mod 10)])"

declare string_of_nat.simps [simp del]

subsection \<open>Requests, responses and the services the relay calls\<close>

text \<open>
  The body of a chat request as the client builds it: \<^verbatim>\<open>message\<close> and
  \<^verbatim>\<open>conversationId\<close> are strings when present, \<^verbatim>\<open>files\<close> is a list of objects
  whose \<^verbatim>\<open>type\<close> and \<^verbatim>\<open>data\<close> are strings.
\<close>

record chat_file =
  file_type :: string
  file_data :: string

datatype jfiles = FilesAbsent | FilesNull | Files "chat_file list"

record chat_body =
  message :: "string option"
  conversationId :: "string option"
  files :: jfiles

text \<open>\<open>BodyInvalid\<close>: \<^verbatim>\<open>req.json()\<close> rejects.\<close>

datatype body = BodyInvalid | Body chat_body

record request =
  req_method :: string
  req_authorization :: "string option"
  req_body :: body

datatype thrown = Error string | TypeError string | PostgrestError db_error

text \<open>A name between double quotes, as the database prints it.\<close>

definition quoted :: "string \<Rightarrow> string" where
  "quoted name = CHR 0x22 # name @ [CHR 0x22]"

text \<open>The text the database reports for an error on \<^verbatim>\<open>messages\<close> (the primary key
  message is that of \<^verbatim>\<open>conversations\<close>); the relay passes it on unread.\<close>

fun db_error_message :: "db_error \<Rightarrow> string" where
  "db_error_message (NotNullViolation c) =
     ''null value in column '' @ quoted c @ '' of relation '' @ quoted ''messages'' @
     '' violates not-null constraint''"
| "db_error_message (CheckViolation c) =
     ''new row for relation '' @ quoted ''messages'' @ '' violates check constraint '' @ quoted c"
| "db_error_message (ForeignKeyViolation c) =
     ''insert or update on table '' @ quoted ''messages'' @
     '' violates foreign key constraint '' @ quoted c"
| "db_error_message (UniqueViolation c) =
     ''duplicate key value violates unique constraint '' @ quoted c"
| "db_error_message (ConnectionFault m) = m"

text \<open>\<^verbatim>\<open>error.message\<close>\<close>

fun error_message :: "thrown \<Rightarrow> string" where
  "error_message (Error m) = m"
| "error_message (TypeError m) = m"
| "error_message (PostgrestError e) = db_error_message e"

record auth_user =
  user_id :: uuid
  user_email :: "string option"

text \<open>\<^verbatim>\<open>{ data: { user }, error }\<close> of \<^verbatim>\<open>supabase.auth.getUser(jwt)\<close>; the error is
  given by its message.\<close>

record auth_result =
  auth_user :: "auth_user option"
  auth_error :: "string option"

datatype part = Text string | InlineData string "string option"

record gemini_message =
  g_role :: string
  g_parts :: "part list"

record gemini_request =
  system_instruction :: string
  contents :: "gemini_message list"
  maxOutputTokens :: nat
  temperature :: real

text \<open>A property of a parsed JSON object: absent, \<^verbatim>\<open>null\<close>, or a value.\<close>

datatype 'a js = Undefined | Null | Value 'a

text \<open>The reply of the generation API, every level of it optional as in JSON; an element
  of an array is a value or \<^verbatim>\<open>null\<close> (\<open>None\<close>), and a part's text is a string or
  nothing.\<close>

datatype gemini_part = GeminiPart (part_text: "string option")
datatype gemini_content = GeminiContent (content_parts: "gemini_part option list js")
datatype gemini_candidate = GeminiCandidate (candidate_content: "gemini_content js")
datatype gemini_data = GeminiData (data_candidates: "gemini_candidate option list js")

record http_response =
  status :: nat
  body_text :: string
  body_json :: "thrown + gemini_data"

text \<open>\<^verbatim>\<open>response.ok\<close>: the status is in the range 200 to 299.\<close>

definition ok :: "http_response \<Rightarrow> bool" where
  "ok r = (200 \<le> status r \<and> status r \<le> 299)"

text \<open>
  What the outside world answers during one request: the auth service, the environment
  variable holding the API key, the generation API, and for the k-th round trip to the
  database (0 the first insert, 1 the history query, 2 the second insert) whether the
  transport fails, and with what message.
\<close>

record env =
  supabase_auth_getUser :: "string \<Rightarrow> auth_result"
  GOOGLE_GEMINI_API_KEY :: "string option"
  fetch :: "string \<Rightarrow> gemini_request \<Rightarrow> thrown + http_response"
  db_fault :: "nat \<Rightarrow> string option"

record history_row =
  h_content :: string
  h_role :: string

text \<open>The calls the relay makes to other services, in the order it makes them; a
  database call is logged with the error it returned, if any.\<close>

datatype event =
    AuthGetUser string
  | DbInsert message_insert "db_error option"
  | DbSelect "string option" uuid "db_error option"
  | Fetch string gemini_request

record world =
  db :: database
  trace :: "event list"

record json_body =
  resp_response :: "string option"
  resp_error :: "string option"
  resp_success :: bool

datatype response_body = NullBody | JsonBody json_body

record response =
  resp_status :: nat
  resp_headers :: "(string \<times> string) list"
  resp_body :: response_body

definition corsHeaders :: "(string \<times> string) list" where
  "corsHeaders =
     [(''Access-Control-Allow-Origin'', ''*''),
      (''Access-Control-Allow-Headers'', ''authorization, x-client-info, apikey, content-type'')]"

subsection \<open>Database calls of the relay\<close>

text \<open>The relay's client is created with the service-role key, which is not subject to
  row level security: it reads and writes the tables themselves.\<close>

definition log :: "event \<Rightarrow> world \<Rightarrow> world" where
  "log ev w = w\<lparr>trace := trace w @ [ev]\<rparr>"

text \<open>\<^verbatim>\<open>await supabase.from('messages').insert(p)\<close>, returning \<^verbatim>\<open>error\<close>\<close>

definition db_insert :: "env \<Rightarrow> nat \<Rightarrow> message_insert \<Rightarrow> world \<Rightarrow> db_error option \<times> world" where
  "db_insert e k p w =
     (case db_fault e k of
        Some m \<Rightarrow> (Some (ConnectionFault m), log (DbInsert p (Some (ConnectionFault m))) w)
      | None \<Rightarrow>
         (case insert_message p (db w) of
            Inl err \<Rightarrow> (Some err, log (DbInsert p (Some err)) w)
          | Inr d' \<Rightarrow> (None, log (DbInsert p None) (w\<lparr>db := d'\<rparr>))))"

text \<open>
  \<^verbatim>\<open>.select('content, role').eq('conversation_id', cid).eq('user_id', uid)
  .order('created_at', { ascending: true }).limit(20)\<close>; rows created at the same time
  keep the order of the table.
\<close>

definition history_query :: "string option \<Rightarrow> uuid \<Rightarrow> database \<Rightarrow> history_row list" where
  "history_query cid uid d =
     map (\<lambda>r. \<lparr>h_content = msg_content r, h_role = msg_role r\<rparr>)
       (take 20
         (sort_key msg_created_at
           (filter (\<lambda>r. Some (msg_conversation_id r) = cid \<and> msg_user_id r = Some uid)
             (messages d))))"

text \<open>The awaited query, returning \<^verbatim>\<open>data\<close> and \<^verbatim>\<open>error\<close>; \<^verbatim>\<open>data\<close> is
  \<^verbatim>\<open>null\<close> when the query fails.\<close>

definition db_select_history ::
  "env \<Rightarrow> nat \<Rightarrow> string option \<Rightarrow> uuid \<Rightarrow> world
     \<Rightarrow> (history_row list option \<times> db_error option) \<times> world" where
  "db_select_history e k cid uid w =
     (case db_fault e k of
        Some m \<Rightarrow> ((None, Some (ConnectionFault m)),
                   log (DbSelect cid uid (Some (ConnectionFault m))) w)
      | None \<Rightarrow> ((Some (history_query cid uid (db w)), None), log (DbSelect cid uid None) w))"

subsection \<open>Building the request to the generation API\<close>

text \<open>\<^verbatim>\<open>const { message, conversationId, files = [] } = body\<close>: the default replaces an
  absent \<^verbatim>\<open>files\<close>, not a \<^verbatim>\<open>null\<close> one.\<close>

definition files_of :: "chat_body \<Rightarrow> chat_file list option" where
  "files_of b = (case files b of FilesAbsent \<Rightarrow> Some [] | FilesNull \<Rightarrow> None | Files fs \<Rightarrow> Some fs)"

text \<open>\<^verbatim>\<open>files && files.length > 0\<close>\<close>

definition has_files :: "chat_file list option \<Rightarrow> bool" where
  "has_files fs = (case fs of None \<Rightarrow> False | Some l \<Rightarrow> l \<noteq> [])"

text \<open>The \<^verbatim>\<open>inlineData\<close> parts that \<^verbatim>\<open>files.forEach\<close> pushes: one for each file whose
  type starts with \<^verbatim>\<open>image/\<close>, holding what follows the first comma of its data.\<close>

definition image_parts :: "chat_file list \<Rightarrow> part list" where
  "image_parts fs =
     map (\<lambda>f. InlineData (file_type f) (nth_opt (split_on (CHR '','') (file_data f)) 1))
       (filter (\<lambda>f. startsWith (file_type f) ''image/'') fs)"

definition attached_images :: "chat_file list option \<Rightarrow> part list" where
  "attached_images fs = (case fs of None \<Rightarrow> [] | Some l \<Rightarrow> image_parts l)"

definition geminiMessages :: "history_row list \<Rightarrow> chat_file list option \<Rightarrow> gemini_message list" where
  "geminiMessages contextMessages fs =
     map (\<lambda>(index, msg).
           \<lparr>g_role = (if h_role msg = ''assistant'' then ''model'' else ''user''),
            g_parts = Text (h_content msg) #
              (if index = length contextMessages - 1 \<and> h_role msg = ''user'' \<and> has_files fs
               then attached_images fs else [])\<rparr>)
       (zip [0..<length contextMessages] contextMessages)"

definition currentMessageParts :: "string option \<Rightarrow> chat_file list option \<Rightarrow> part list" where
  "currentMessageParts m fs =
     (if truthy m then [Text (the m)] else [Text ''Please analyze this image.''])
     @ (if has_files fs then attached_images fs else [])"

definition systemInstruction :: string where
  "systemInstruction = ''You are IKnowEverything, an intelligent AI assistant with vast knowledge and logical thinking capabilities. You understand and can discuss any topic with depth and accuracy. You think logically, provide comprehensive answers, and help users with any questions or tasks they have. You are knowledgeable, helpful, and can engage in meaningful conversations on any subject.''"

definition gemini_url :: "string \<Rightarrow> string" where
  "gemini_url geminiApiKey =
     ''https://generativelanguage.googleapis.com/v1beta/models/gemini-1.5-flash-latest:generateContent?key=''
     @ geminiApiKey"

definition gemini_body :: "history_row list option \<Rightarrow> chat_body \<Rightarrow> gemini_request" where
  "gemini_body msgs b =
     (let contextMessages =
            filter (\<lambda>msg. h_role msg \<noteq> ''system'') (case msgs of None \<Rightarrow> [] | Some ms \<Rightarrow> ms)
      in \<lparr>system_instruction = systemInstruction,
          contents = geminiMessages contextMessages (files_of b) @
            [\<lparr>g_role = ''user'', g_parts = currentMessageParts (message b) (files_of b)\<rparr>],
          maxOutputTokens = 2000,
          temperature = 7 / 10\<rparr>)"

text \<open>The TypeError the runtime throws for reading a property of \<^verbatim>\<open>undefined\<close> or
  of \<^verbatim>\<open>null\<close>; it names the property between apostrophes.\<close>

definition reading :: "string \<Rightarrow> string \<Rightarrow> thrown" where
  "reading p what =
     TypeError (''Cannot read properties of '' @ what @ '' (reading '' @
                CHR 0x27 # p @ CHR 0x27 # '')'')"

text \<open>\<^verbatim>\<open>data.candidates[0].content.parts[0].text\<close>: each step reads a property of the
  value before it and throws when that value is \<^verbatim>\<open>undefined\<close> (an absent property,
  the first element of an empty array) or \<^verbatim>\<open>null\<close>.\<close>

definition first_text :: "gemini_data \<Rightarrow> thrown + string option" where
  "first_text d =
     (case data_candidates d of
        Undefined \<Rightarrow> Inl (reading ''0'' ''undefined'')
      | Null \<Rightarrow> Inl (reading ''0'' ''null'')
      | Value cs \<Rightarrow>
     (case cs of
        [] \<Rightarrow> Inl (reading ''content'' ''undefined'')
      | None # _ \<Rightarrow> Inl (reading ''content'' ''null'')
      | Some c # _ \<Rightarrow>
     (case candidate_content c of
        Undefined \<Rightarrow> Inl (reading ''parts'' ''undefined'')
      | Null \<Rightarrow> Inl (reading ''parts'' ''null'')
      | Value ct \<Rightarrow>
     (case content_parts ct of
        Undefined \<Rightarrow> Inl (reading ''0'' ''undefined'')
      | Null \<Rightarrow> Inl (reading ''0'' ''null'')
      | Value ps \<Rightarrow>
     (case ps of
        [] \<Rightarrow> Inl (reading ''text'' ''undefined'')
      | None # _ \<Rightarrow> Inl (reading ''text'' ''null'')
      | Some p # _ \<Rightarrow> Inr (part_text p))))))"

subsection \<open>The handler\<close>

text \<open>The row the relay stores for the inbound message:
  \<^verbatim>\<open>{ conversation_id: conversationId, content: message || '[Image analysis requested]',
  role: 'user', user_id: user.id }\<close>\<close>

definition user_insert :: "chat_body \<Rightarrow> auth_user \<Rightarrow> message_insert" where
  "user_insert b u =
     \<lparr>ins_conversation_id = conversationId b,
      ins_content = Some (or_else (message b) ''[Image analysis requested]''),
      ins_role = Some ''user'', ins_user_id = Some (user_id u)\<rparr>"

text \<open>The row the relay stores for the reply:
  \<^verbatim>\<open>{ conversation_id: conversationId, content: assistantMessage, role: 'assistant',
  user_id: user.id }\<close>\<close>

definition assistant_insert :: "chat_body \<Rightarrow> auth_user \<Rightarrow> string option \<Rightarrow> message_insert" where
  "assistant_insert b u assistantMessage =
     \<lparr>ins_conversation_id = conversationId b, ins_content = assistantMessage,
      ins_role = Some ''assistant'', ins_user_id = Some (user_id u)\<rparr>"

text \<open>Each stage returns what the \<^verbatim>\<open>try\<close> block has produced so far: \<open>Inl\<close> the
  thrown error, \<open>Inr\<close> the assistant's text.\<close>

definition store_assistant ::
  "env \<Rightarrow> chat_body \<Rightarrow> auth_user \<Rightarrow> string option \<Rightarrow> world
     \<Rightarrow> (thrown + string option) \<times> world" where
  "store_assistant e b u assistantMessage w =
     (case db_insert e 2 (assistant_insert b u assistantMessage) w of
        (Some assistantMessageError, w') \<Rightarrow> (Inl (PostgrestError assistantMessageError), w')
      | (None, w') \<Rightarrow> (Inr assistantMessage, w'))"

definition generate ::
  "env \<Rightarrow> string \<Rightarrow> chat_body \<Rightarrow> auth_user \<Rightarrow> history_row list option \<Rightarrow> world
     \<Rightarrow> (thrown + string option) \<times> world" where
  "generate e geminiApiKey b u msgs w =
     (let w' = log (Fetch (gemini_url geminiApiKey) (gemini_body msgs b)) w in
      case fetch e (gemini_url geminiApiKey) (gemini_body msgs b) of
        Inl err \<Rightarrow> (Inl err, w')
      | Inr r \<Rightarrow>
          if \<not> ok r
          then (Inl (Error (''Google Gemini API error: '' @ string_of_nat (status r) @ '' ''
                              @ body_text r)), w')
          else (case body_json r of
                  Inl err \<Rightarrow> (Inl err, w')
                | Inr data \<Rightarrow>
                    (case first_text data of
                       Inl err \<Rightarrow> (Inl err, w')
                     | Inr assistantMessage \<Rightarrow> store_assistant e b u assistantMessage w')))"

definition converse ::
  "env \<Rightarrow> chat_body \<Rightarrow> auth_user \<Rightarrow> world \<Rightarrow> (thrown + string option) \<times> world" where
  "converse e b u w =
     (if \<not> truthy (GOOGLE_GEMINI_API_KEY e)
      then (Inl (Error ''Google Gemini API key not found''), w)
      else
       (case db_insert e 0 (user_insert b u) w of
          (Some messageError, w1) \<Rightarrow> (Inl (PostgrestError messageError), w1)
        | (None, w1) \<Rightarrow>
           (case db_select_history e 1 (conversationId b) (user_id u) w1 of
              ((msgs, historyError), w2) \<Rightarrow>
                generate e (the (GOOGLE_GEMINI_API_KEY e)) b u msgs w2)))"

definition jwt_of :: "string \<Rightarrow> string" where
  "jwt_of authHeader = replace_first ''Bearer '' [] authHeader"

definition chat_pipeline :: "env \<Rightarrow> request \<Rightarrow> world \<Rightarrow> (thrown + string option) \<times> world" where
  "chat_pipeline e req w =
     (case req_body req of
        BodyInvalid \<Rightarrow> (Inl (Error ''Invalid request body''), w)
      | Body b \<Rightarrow>
          if \<not> truthy (message b) \<and> \<not> has_files (files_of b)
          then (Inl (Error ''Either message or files must be provided''), w)
          else if \<not> truthy (req_authorization req)
          then (Inl (Error ''No authorization header''), w)
          else
            (let jwt = jwt_of (the (req_authorization req));
                 r = supabase_auth_getUser e jwt;
                 w' = log (AuthGetUser jwt) w
             in case (auth_error r, auth_user r) of
                  (None, Some u) \<Rightarrow> converse e b u w'
                | _ \<Rightarrow> (Inl (Error (''User not authenticated: '' @
                                      or_else (auth_error r) ''Invalid JWT token'')), w')))"

definition json_headers :: "(string \<times> string) list" where
  "json_headers = corsHeaders @ [(''Content-Type'', ''application/json'')]"

definition success_response :: "string option \<Rightarrow> response" where
  "success_response assistantMessage =
     \<lparr>resp_status = 200, resp_headers = json_headers,
      resp_body = JsonBody \<lparr>resp_response = assistantMessage, resp_error = None,
                            resp_success = True\<rparr>\<rparr>"

definition error_response :: "thrown \<Rightarrow> response" where
  "error_response err =
     \<lparr>resp_status = 500, resp_headers = json_headers,
      resp_body = JsonBody \<lparr>resp_response = None, resp_error = Some (error_message err),
                            resp_success = False\<rparr>\<rparr>"

definition serve_handler :: "env \<Rightarrow> request \<Rightarrow> world \<Rightarrow> response \<times> world" where
  "serve_handler e req w =
     (if req_method req = ''OPTIONS''
      then (\<lparr>resp_status = 200, resp_headers = corsHeaders, resp_body = NullBody\<rparr>, w)
      else (case chat_pipeline e req w of
              (Inr assistantMessage, w') \<Rightarrow> (success_response assistantMessage, w')
            | (Inl err, w') \<Rightarrow> (error_response err, w')))"

subsection \<open>Reading the outcome of a request\<close>

text \<open>The calls made while one request was handled.\<close>

definition new_events :: "world \<Rightarrow> world \<Rightarrow> event list" where
  "new_events w w' = drop (length (trace w)) (trace w')"

text \<open>The token the relay presents to the auth service, and what the service answers.\<close>

definition presented_jwt :: "request \<Rightarrow> string" where
  "presented_jwt req = jwt_of (the (req_authorization req))"

definition verification :: "env \<Rightarrow> request \<Rightarrow> auth_result" where
  "verification e req = supabase_auth_getUser e (presented_jwt req)"

text \<open>\<^verbatim>\<open>userError || !user\<close>\<close>

definition jwt_rejected :: "env \<Rightarrow> request \<Rightarrow> bool" where
  "jwt_rejected e req =
     (auth_error (verification e req) \<noteq> None \<or> auth_user (verification e req) = None)"

text \<open>What the history query hands to the relay: \<^verbatim>\<open>data\<close> and \<^verbatim>\<open>error\<close>.\<close>

definition history_data :: "env \<Rightarrow> chat_body \<Rightarrow> auth_user \<Rightarrow> database \<Rightarrow> history_row list option" where
  "history_data e b u d =
     (case db_fault e 1 of
        None \<Rightarrow> Some (history_query (conversationId b) (user_id u) d)
      | Some m \<Rightarrow> None)"

definition history_error :: "env \<Rightarrow> db_error option" where
  "history_error e = map_option ConnectionFault (db_fault e 1)"

datatype step = Authenticate | StoreInbound | FetchHistory | Generate | StoreReply

fun step_of :: "event \<Rightarrow> step" where
  "step_of (AuthGetUser jwt) = Authenticate"
| "step_of (DbInsert p r) = (if ins_role p = Some ''assistant'' then StoreReply else StoreInbound)"
| "step_of (DbSelect cid uid r) = FetchHistory"
| "step_of (Fetch url g) = Generate"

text \<open>The messages sent to the generation API by the calls of a trace.\<close>

fun sent_contents :: "event list \<Rightarrow> gemini_message list" where
  "sent_contents [] = []"
| "sent_contents (Fetch url g # evs) = contents g @ sent_contents evs"
| "sent_contents (ev # evs) = sent_contents evs"

subsection \<open>What a user's request can depend on\<close>




section \<open>Sample requests\<close>

text \<open>A small world to run the relay in: one user, one conversation, and services that
  answer as configured.\<close>

definition alice :: auth_user where
  "alice = \<lparr>user_id = ''alice'', user_email = Some ''alice@example.org''\<rparr>"

definition sample_auth :: "string \<Rightarrow> auth_result" where
  "sample_auth jwt =
     (if jwt = ''alice-token'' then \<lparr>auth_user = Some alice, auth_error = None\<rparr>
      else \<lparr>auth_user = None, auth_error = Some ''invalid JWT''\<rparr>)"

definition sample_reply :: http_response where
  "sample_reply =
     \<lparr>status = 200, body_text = [],
      body_json = Inr (GeminiData (Value [Some (GeminiCandidate (Value (GeminiContent
                    (Value [Some (GeminiPart (Some ''Hello!''))]))))]))\<rparr>"

definition sample_env :: env where
  "sample_env =
     \<lparr>supabase_auth_getUser = sample_auth, GOOGLE_GEMINI_API_KEY = Some ''key'',
      fetch = (\<lambda>url g. Inr sample_reply), db_fault = (\<lambda>k. None)\<rparr>"

definition unavailable :: http_response where
  "unavailable = \<lparr>status = 503, body_text = ''overloaded'', body_json = Inl (Error ''not JSON'')\<rparr>"

definition gemini_down :: env where
  "gemini_down = sample_env\<lparr>fetch := (\<lambda>url g. Inr unavailable)\<rparr>"


definition sample_db :: database where
  "sample_db =
     \<lparr>conversations = [\<lparr>conv_id = ''c1'', conv_title = ''New Conversation'',
                        conv_created_at = 0, conv_updated_at = 0\<rparr>],
      messages = [], now = 1, next_id = 0\<rparr>"

definition sample_world :: world where
  "sample_world = \<lparr>db = sample_db, trace = []\<rparr>"

definition sample_body :: chat_body where
  "sample_body = \<lparr>message = Some ''hello'', conversationId = Some ''c1'', files = FilesAbsent\<rparr>"

definition sample_request :: request where
  "sample_request =
     \<lparr>req_method = ''POST'', req_authorization = Some ''Bearer alice-token'',
      req_body = Body sample_body\<rparr>"









definition system_insert :: message_insert where
  "system_insert =
     \<lparr>ins_conversation_id = Some ''c1'', ins_content = Some ''be brief'',
      ins_role = Some ''system'', ins_user_id = Some ''alice''\<rparr>"

definition orphan_insert :: message_insert where
  "orphan_insert =
     \<lparr>ins_conversation_id = None, ins_content = Some ''hello'',
      ins_role = Some ''user'', ins_user_id = Some ''alice''\<rparr>"

definition dangling_insert :: message_insert where
  "dangling_insert =
     \<lparr>ins_conversation_id = Some ''c9'', ins_content = Some ''hello'',
      ins_role = Some ''user'', ins_user_id = Some ''alice''\<rparr>"

definition populate :: "db_op list" where
  "populate =
     [InsertConversation ''c1'' ''first'',
      InsertConversation ''c2'' ''second'',
      InsertMessage \<lparr>ins_conversation_id = Some ''c1'', ins_content = Some ''hello'',
                     ins_role = Some ''user'', ins_user_id = Some ''alice''\<rparr>,
      InsertMessage \<lparr>ins_conversation_id = Some ''c2'', ins_content = Some ''hi'',
                     ins_role = Some ''user'', ins_user_id = Some ''bob''\<rparr>,
      InsertMessage system_insert]"

definition sample_ops :: "db_op list" where
  "sample_ops = populate @ [DeleteConversation ''c1'']"

text \<open>A conversation of alice's that holds 21 messages, numbered in the order of their
  creation; message 20 is the newest.\<close>

definition numbered_message :: "nat \<Rightarrow> message_row" where
  "numbered_message i =
     \<lparr>msg_id = i, msg_conversation_id = ''c1'', msg_content = ''m'' @ string_of_nat i,
      msg_role = (if even i then ''user'' else ''assistant''), msg_created_at = i,
      msg_user_id = Some ''alice''\<rparr>"

definition long_conversation :: database where
  "long_conversation =
     sample_db\<lparr>messages := map numbered_message [0..<21], now := 21, next_id := 21\<rparr>"

definition long_world :: world where
  "long_world = \<lparr>db = long_conversation, trace = []\<rparr>"







section \<open>Properties\<close>

subsection \<open>How a request can end\<close>

lemma db_log [simp]: "db (log ev w) = db w"
  by (simp add: log_def)

lemma trace_log [simp]: "trace (log ev w) = trace w @ [ev]"
  by (simp add: log_def)

lemma db_insert_trace [simp]:
  "trace (snd (db_insert e k p w)) = trace w @ [DbInsert p (fst (db_insert e k p w))]"
  by (simp add: db_insert_def split: option.splits sum.splits)

lemma db_insert_failed:
  "fst (db_insert e k p w) = Some err \<Longrightarrow> db (snd (db_insert e k p w)) = db w"
  by (auto simp: db_insert_def split: option.splits sum.splits)

lemma db_insert_why:
  "fst (db_insert e k p w) = Some err \<Longrightarrow>
     db_fault e k \<noteq> None \<or> insert_message p (db w) = Inl err"
  by (auto simp: db_insert_def split: option.splits sum.splits)

lemma db_insert_done:
  "fst (db_insert e k p w) = None \<Longrightarrow>
     insert_message p (db w) = Inr (db (snd (db_insert e k p w))) \<and> db_fault e k = None"
  by (auto simp: db_insert_def split: option.splits sum.splits)

lemma db_select_history_eq:
  "db_select_history e (Suc 0) (conversationId b) (user_id u) w =
     ((history_data e b u (db w), history_error e),
      log (DbSelect (conversationId b) (user_id u) (history_error e)) w)"
  by (simp add: db_select_history_def history_data_def history_error_def split: option.splits)

lemma store_assistant_failed:
  "fst (db_insert e 2 (assistant_insert b u t) w) = Some err \<Longrightarrow>
     store_assistant e b u t w = (Inl (PostgrestError err), snd (db_insert e 2 (assistant_insert b u t) w))"
  by (auto simp: store_assistant_def split: prod.splits)

lemma store_assistant_done:
  "fst (db_insert e 2 (assistant_insert b u t) w) = None \<Longrightarrow>
     store_assistant e b u t w = (Inr t, snd (db_insert e 2 (assistant_insert b u t) w))"
  by (auto simp: store_assistant_def split: prod.splits)


lemma store_assistant_cases [consumes 1, case_names reply_not_stored reply_stored]:
  assumes "store_assistant e b u t w = (r, w')"
  obtains
    (reply_not_stored) err where
      "r = Inl (PostgrestError err)" "db w' = db w"
      "trace w' = trace w @ [DbInsert (assistant_insert b u t) (Some err)]"
  | (reply_stored)
      "r = Inr t" "insert_message (assistant_insert b u t) (db w) = Inr (db w')"
      "db_fault e 2 = None"
      "trace w' = trace w @ [DbInsert (assistant_insert b u t) None]"
proof (cases "fst (db_insert e 2 (assistant_insert b u t) w)")
  case None
  from store_assistant_done [OF None] assms
  have "r = Inr t" and "w' = snd (db_insert e 2 (assistant_insert b u t) w)" by simp_all
  with db_insert_done [OF None] None show ?thesis by (intro reply_stored) simp_all
next
  case (Some err)
  from store_assistant_failed [OF Some] assms
  have "r = Inl (PostgrestError err)" and "w' = snd (db_insert e 2 (assistant_insert b u t) w)"
    by simp_all
  with db_insert_failed [OF Some] Some show ?thesis by (intro reply_not_stored) simp_all
qed

lemma generate_cases [consumes 1, case_names generation_failed reply_rejected replied]:
  assumes "generate e k b u msgs w = (r, w')"
  obtains
    (generation_failed) err where
      "r = Inl err" "db w' = db w"
      "trace w' = trace w @ [Fetch (gemini_url k) (gemini_body msgs b)]"
      "\<And>resp. fetch e (gemini_url k) (gemini_body msgs b) = Inr resp \<Longrightarrow> \<not> ok resp \<Longrightarrow>
         err = Error (''Google Gemini API error: '' @ string_of_nat (status resp) @ '' ''
                       @ body_text resp)"
  | (reply_rejected) resp data t err where
      "fetch e (gemini_url k) (gemini_body msgs b) = Inr resp" "ok resp"
      "body_json resp = Inr data" "first_text data = Inr t"
      "r = Inl (PostgrestError err)" "db w' = db w"
      "trace w' = trace w @ [Fetch (gemini_url k) (gemini_body msgs b),
                              DbInsert (assistant_insert b u t) (Some err)]"
  | (replied) resp data t where
      "fetch e (gemini_url k) (gemini_body msgs b) = Inr resp" "ok resp"
      "body_json resp = Inr data" "first_text data = Inr t"
      "r = Inr t" "insert_message (assistant_insert b u t) (db w) = Inr (db w')"
      "db_fault e 2 = None"
      "trace w' = trace w @ [Fetch (gemini_url k) (gemini_body msgs b),
                              DbInsert (assistant_insert b u t) None]"
proof (cases "fetch e (gemini_url k) (gemini_body msgs b)")
  case (Inl err)
  with assms [symmetric] show ?thesis
    by (intro generation_failed [of err]) (simp_all add: generate_def Let_def)
next
  case (Inr resp)
  note fetched = this
  show ?thesis
  proof (cases "ok resp")
    case False
    with assms [symmetric] fetched show ?thesis
      by (intro generation_failed) (simp_all add: generate_def Let_def)
  next
    case True
    note is_ok = this
    show ?thesis
    proof (cases "body_json resp")
      case (Inl err)
      with assms [symmetric] fetched is_ok show ?thesis
        by (intro generation_failed [of err]) (simp_all add: generate_def Let_def)
    next
      case (Inr data)
      note parsed = this
      show ?thesis
      proof (cases "first_text data")
        case (Inl err)
        with assms [symmetric] fetched is_ok parsed show ?thesis
          by (intro generation_failed [of err]) (simp_all add: generate_def Let_def)
      next
        case (Inr t)
        with assms fetched is_ok parsed
        have "store_assistant e b u t (log (Fetch (gemini_url k) (gemini_body msgs b)) w) = (r, w')"
          by (simp add: generate_def Let_def)
        then show ?thesis
        proof (cases rule: store_assistant_cases)
          case (reply_not_stored err)
          with fetched is_ok parsed Inr show ?thesis
            by (intro reply_rejected [of resp data t err]) simp_all
        next
          case reply_stored
          with fetched is_ok parsed Inr show ?thesis
            by (intro replied [of resp data t]) simp_all
        qed
      qed
    qed
  qed
qed


lemma converse_cases
  [consumes 1, case_names no_api_key inbound_rejected generation_failed reply_rejected replied]:
  assumes "converse e b u w = (r, w')"
  obtains
    (no_api_key)
      "\<not> truthy (GOOGLE_GEMINI_API_KEY e)"
      "r = Inl (Error ''Google Gemini API key not found'')" "w' = w"
  | (inbound_rejected) err where
      "truthy (GOOGLE_GEMINI_API_KEY e)"
      "r = Inl (PostgrestError err)" "db w' = db w"
      "trace w' = trace w @ [DbInsert (user_insert b u) (Some err)]"
      "db_fault e 0 \<noteq> None \<or> insert_message (user_insert b u) (db w) = Inl err"
  | (generation_failed) d1 err where
      "truthy (GOOGLE_GEMINI_API_KEY e)"
      "insert_message (user_insert b u) (db w) = Inr d1" "db_fault e 0 = None"
      "r = Inl err" "db w' = d1"
      "trace w' = trace w @
         [DbInsert (user_insert b u) None,
          DbSelect (conversationId b) (user_id u) (history_error e),
          Fetch (gemini_url (the (GOOGLE_GEMINI_API_KEY e))) (gemini_body (history_data e b u d1) b)]"
      "\<And>resp. fetch e (gemini_url (the (GOOGLE_GEMINI_API_KEY e)))
                 (gemini_body (history_data e b u d1) b) = Inr resp \<Longrightarrow> \<not> ok resp \<Longrightarrow>
         err = Error (''Google Gemini API error: '' @ string_of_nat (status resp) @ '' ''
                       @ body_text resp)"
  | (reply_rejected) d1 resp data t err where
      "truthy (GOOGLE_GEMINI_API_KEY e)"
      "insert_message (user_insert b u) (db w) = Inr d1" "db_fault e 0 = None"
      "fetch e (gemini_url (the (GOOGLE_GEMINI_API_KEY e)))
         (gemini_body (history_data e b u d1) b) = Inr resp" "ok resp"
      "body_json resp = Inr data" "first_text data = Inr t"
      "r = Inl (PostgrestError err)" "db w' = d1"
      "trace w' = trace w @
         [DbInsert (user_insert b u) None,
          DbSelect (conversationId b) (user_id u) (history_error e),
          Fetch (gemini_url (the (GOOGLE_GEMINI_API_KEY e))) (gemini_body (history_data e b u d1) b),
          DbInsert (assistant_insert b u t) (Some err)]"
  | (replied) d1 resp data t where
      "truthy (GOOGLE_GEMINI_API_KEY e)"
      "insert_message (user_insert b u) (db w) = Inr d1" "db_fault e 0 = None"
      "fetch e (gemini_url (the (GOOGLE_GEMINI_API_KEY e)))
         (gemini_body (history_data e b u d1) b) = Inr resp" "ok resp"
      "body_json resp = Inr data" "first_text data = Inr t"
      "r = Inr t" "insert_message (assistant_insert b u t) d1 = Inr (db w')"
      "db_fault e 2 = None"
      "trace w' = trace w @
         [DbInsert (user_insert b u) None,
          DbSelect (conversationId b) (user_id u) (history_error e),
          Fetch (gemini_url (the (GOOGLE_GEMINI_API_KEY e))) (gemini_body (history_data e b u d1) b),
          DbInsert (assistant_insert b u t) None]"
proof (cases "truthy (GOOGLE_GEMINI_API_KEY e)")
  case False
  with assms [symmetric] show ?thesis
    by (intro no_api_key) (simp_all add: converse_def)
next
  case True
  note key = this
  note rule_failed = generation_failed and rule_rejected = reply_rejected and rule_replied = replied
  define w1 where "w1 = snd (db_insert e 0 (user_insert b u) w)"
  show ?thesis
  proof (cases "fst (db_insert e 0 (user_insert b u) w)")
    case (Some err)
    with key assms [symmetric] have "r = Inl (PostgrestError err)" and "w' = w1"
      by (simp_all add: converse_def w1_def split: prod.splits)
    with key db_insert_failed [OF Some] db_insert_why [OF Some] Some show ?thesis
      by (intro inbound_rejected [of err]) (simp_all add: w1_def)
  next
    case None
    from db_insert_done [OF None]
    have stored: "insert_message (user_insert b u) (db w) = Inr (db w1)" and
      nofault: "db_fault e 0 = None"
      by (simp_all add: w1_def)
    have tr1: "trace w1 = trace w @ [DbInsert (user_insert b u) None]"
      using None by (simp add: w1_def)
    from key None assms
    have "generate e (the (GOOGLE_GEMINI_API_KEY e)) b u (history_data e b u (db w1))
            (log (DbSelect (conversationId b) (user_id u) (history_error e)) w1) = (r, w')"
      by (simp add: converse_def w1_def db_select_history_eq split: prod.splits)
    then show ?thesis
    proof (cases rule: generate_cases)
      case (generation_failed err)
      with key stored nofault tr1 show ?thesis
        by (intro rule_failed [of "db w1" err]) simp_all
    next
      case (reply_rejected resp data t err)
      with key stored nofault tr1 show ?thesis
        by (intro rule_rejected [of "db w1" resp data t err]) simp_all
    next
      case (replied resp data t)
      with key stored nofault tr1 show ?thesis
        by (intro rule_replied [of "db w1" resp data t]) simp_all
    qed
  qed
qed


lemma chat_pipeline_cases
  [consumes 1, case_names invalid_body nothing_to_send no_authorization not_authenticated
     no_api_key inbound_rejected generation_failed reply_rejected replied]:
  assumes "chat_pipeline e req w = (r, w')"
  obtains
    (invalid_body)
      "req_body req = BodyInvalid" "r = Inl (Error ''Invalid request body'')" "w' = w"
  | (nothing_to_send) b where
      "req_body req = Body b" "\<not> truthy (message b)" "\<not> has_files (files_of b)"
      "r = Inl (Error ''Either message or files must be provided'')" "w' = w"
  | (no_authorization) b where
      "req_body req = Body b" "truthy (message b) \<or> has_files (files_of b)"
      "\<not> truthy (req_authorization req)"
      "r = Inl (Error ''No authorization header'')" "w' = w"
  | (not_authenticated) b where
      "req_body req = Body b" "truthy (message b) \<or> has_files (files_of b)"
      "truthy (req_authorization req)" "jwt_rejected e req"
      "r = Inl (Error (''User not authenticated: '' @
                        or_else (auth_error (verification e req)) ''Invalid JWT token''))"
      "db w' = db w" "trace w' = trace w @ [AuthGetUser (presented_jwt req)]"
  | (no_api_key) b u where
      "req_body req = Body b" "truthy (message b) \<or> has_files (files_of b)"
      "truthy (req_authorization req)" "\<not> jwt_rejected e req"
      "auth_user (verification e req) = Some u"
      "\<not> truthy (GOOGLE_GEMINI_API_KEY e)"
      "r = Inl (Error ''Google Gemini API key not found'')"
      "db w' = db w" "trace w' = trace w @ [AuthGetUser (presented_jwt req)]"
  | (inbound_rejected) b u err where
      "req_body req = Body b" "truthy (message b) \<or> has_files (files_of b)"
      "truthy (req_authorization req)" "\<not> jwt_rejected e req"
      "auth_user (verification e req) = Some u"
      "truthy (GOOGLE_GEMINI_API_KEY e)"
      "r = Inl (PostgrestError err)" "db w' = db w"
      "trace w' = trace w @
         [AuthGetUser (presented_jwt req), DbInsert (user_insert b u) (Some err)]"
      "db_fault e 0 \<noteq> None \<or> insert_message (user_insert b u) (db w) = Inl err"
  | (generation_failed) b u d1 err where
      "req_body req = Body b" "truthy (message b) \<or> has_files (files_of b)"
      "truthy (req_authorization req)" "\<not> jwt_rejected e req"
      "auth_user (verification e req) = Some u"
      "truthy (GOOGLE_GEMINI_API_KEY e)"
      "insert_message (user_insert b u) (db w) = Inr d1" "db_fault e 0 = None"
      "r = Inl err" "db w' = d1"
      "trace w' = trace w @
         [AuthGetUser (presented_jwt req),
          DbInsert (user_insert b u) None,
          DbSelect (conversationId b) (user_id u) (history_error e),
          Fetch (gemini_url (the (GOOGLE_GEMINI_API_KEY e))) (gemini_body (history_data e b u d1) b)]"
      "\<And>resp. fetch e (gemini_url (the (GOOGLE_GEMINI_API_KEY e)))
                 (gemini_body (history_data e b u d1) b) = Inr resp \<Longrightarrow> \<not> ok resp \<Longrightarrow>
         err = Error (''Google Gemini API error: '' @ string_of_nat (status resp) @ '' ''
                       @ body_text resp)"
  | (reply_rejected) b u d1 resp data t err where
      "req_body req = Body b" "truthy (message b) \<or> has_files (files_of b)"
      "truthy (req_authorization req)" "\<not> jwt_rejected e req"
      "auth_user (verification e req) = Some u"
      "truthy (GOOGLE_GEMINI_API_KEY e)"
      "insert_message (user_insert b u) (db w) = Inr d1" "db_fault e 0 = None"
      "fetch e (gemini_url (the (GOOGLE_GEMINI_API_KEY e)))
         (gemini_body (history_data e b u d1) b) = Inr resp" "ok resp"
      "body_json resp = Inr data" "first_text data = Inr t"
      "r = Inl (PostgrestError err)" "db w' = d1"
      "trace w' = trace w @
         [AuthGetUser (presented_jwt req),
          DbInsert (user_insert b u) None,
          DbSelect (conversationId b) (user_id u) (history_error e),
          Fetch (gemini_url (the (GOOGLE_GEMINI_API_KEY e))) (gemini_body (history_data e b u d1) b),
          DbInsert (assistant_insert b u t) (Some err)]"
  | (replied) b u d1 resp data t where
      "req_body req = Body b" "truthy (message b) \<or> has_files (files_of b)"
      "truthy (req_authorization req)" "\<not> jwt_rejected e req"
      "auth_user (verification e req) = Some u"
      "truthy (GOOGLE_GEMINI_API_KEY e)"
      "insert_message (user_insert b u) (db w) = Inr d1" "db_fault e 0 = None"
      "fetch e (gemini_url (the (GOOGLE_GEMINI_API_KEY e)))
         (gemini_body (history_data e b u d1) b) = Inr resp" "ok resp"
      "body_json resp = Inr data" "first_text data = Inr t"
      "r = Inr t" "insert_message (assistant_insert b u t) d1 = Inr (db w')"
      "db_fault e 2 = None"
      "trace w' = trace w @
         [AuthGetUser (presented_jwt req),
          DbInsert (user_insert b u) None,
          DbSelect (conversationId b) (user_id u) (history_error e),
          Fetch (gemini_url (the (GOOGLE_GEMINI_API_KEY e))) (gemini_body (history_data e b u d1) b),
          DbInsert (assistant_insert b u t) None]"
proof (cases "req_body req")
  case BodyInvalid
  with assms [symmetric] show ?thesis
    by (intro invalid_body) (simp_all add: chat_pipeline_def)
next
  case (Body b)
  note parsed = this
  note rule_no_key = no_api_key and rule_inbound = inbound_rejected
    and rule_failed = generation_failed and rule_rejected = reply_rejected
    and rule_replied = replied
  show ?thesis
  proof (cases "truthy (message b) \<or> has_files (files_of b)")
    case False
    with assms [symmetric] parsed show ?thesis
      by (intro nothing_to_send [of b]) (simp_all add: chat_pipeline_def)
  next
    case True
    note sendable = this
    show ?thesis
    proof (cases "truthy (req_authorization req)")
      case False
      with assms [symmetric] parsed sendable show ?thesis
        by (intro no_authorization [of b]) (auto simp: chat_pipeline_def)
    next
      case True
      note header = this
      show ?thesis
      proof (cases "jwt_rejected e req")
        case True
        with assms [symmetric] parsed sendable header show ?thesis
          by (intro not_authenticated [of b])
            (auto simp: chat_pipeline_def Let_def jwt_rejected_def verification_def
               presented_jwt_def split: option.splits)
      next
        case False
        then obtain u where user: "auth_user (verification e req) = Some u"
          and noerr: "auth_error (verification e req) = None"
          by (auto simp: jwt_rejected_def)
        with assms parsed sendable header
        have "converse e b u (log (AuthGetUser (presented_jwt req)) w) = (r, w')"
          by (auto simp: chat_pipeline_def Let_def verification_def presented_jwt_def)
        then show ?thesis
        proof (cases rule: converse_cases)
          case no_api_key
          with parsed sendable header False user show ?thesis
            by (intro rule_no_key [of b u]) simp_all
        next
          case (inbound_rejected err)
          with parsed sendable header False user show ?thesis
            by (intro rule_inbound [of b u err]) simp_all
        next
          case (generation_failed d1 err)
          with parsed sendable header False user show ?thesis
            by (intro rule_failed [of b u d1 err]) simp_all
        next
          case (reply_rejected d1 resp data t err)
          with parsed sendable header False user show ?thesis
            by (intro rule_rejected [of b u d1 resp data t err]) simp_all
        next
          case (replied d1 resp data t)
          with parsed sendable header False user show ?thesis
            by (intro rule_replied [of b u d1 resp data t]) simp_all
        qed
      qed
    qed
  qed
qed

lemma serve_handler_cases [consumes 1, case_names preflight failed succeeded]:
  assumes "serve_handler e req w = (resp, w')"
  obtains
    (preflight)
      "req_method req = ''OPTIONS''"
      "resp = \<lparr>resp_status = 200, resp_headers = corsHeaders, resp_body = NullBody\<rparr>" "w' = w"
  | (failed) err where
      "req_method req \<noteq> ''OPTIONS''" "chat_pipeline e req w = (Inl err, w')"
      "resp = error_response err"
  | (succeeded) t where
      "req_method req \<noteq> ''OPTIONS''" "chat_pipeline e req w = (Inr t, w')"
      "resp = success_response t"
proof (cases "req_method req = ''OPTIONS''")
  case True
  with assms [symmetric] show ?thesis
    by (intro preflight) (simp_all add: serve_handler_def)
next
  case False
  obtain r w1 where run: "chat_pipeline e req w = (r, w1)"
    by (cases "chat_pipeline e req w")
  show ?thesis
  proof (cases r)
    case (Inl err)
    with assms [symmetric] False run show ?thesis
      by (intro failed [of err]) (simp_all add: serve_handler_def)
  next
    case (Inr t)
    with assms [symmetric] False run show ?thesis
      by (intro succeeded [of t]) (simp_all add: serve_handler_def)
  qed
qed

lemma insert_message_content:
  "insert_message p d = Inr d' \<Longrightarrow> \<exists>c. ins_content p = Some c"
  by (auto simp: insert_message_def split: option.splits if_splits)

lemmas sample_defs =
  sample_env_def sample_auth_def sample_reply_def alice_def sample_db_def sample_world_def
  sample_body_def sample_request_def

lemmas relay_defs =
  serve_handler_def chat_pipeline_def converse_def generate_def store_assistant_def
  db_insert_def db_select_history_def insert_message_def role_check_def conversation_exists_def
  user_insert_def assistant_insert_def log_def truthy_def or_else_def has_files_def files_of_def
  jwt_of_def ok_def first_text_def success_response_def error_response_def Let_def

lemma insert_message_appends:
  assumes "insert_message p d = Inr d'"
  shows "messages d' = messages d @
           [\<lparr>msg_id = next_id d, msg_conversation_id = the (ins_conversation_id p),
             msg_content = the (ins_content p), msg_role = the (ins_role p),
             msg_created_at = now d, msg_user_id = ins_user_id p\<rparr>]"
    and "conversations d' = conversations d"
    and "role_check (the (ins_role p))"
    and "conversation_exists (the (ins_conversation_id p)) d"
  using assms by (auto simp: insert_message_def split: option.splits if_splits)

lemma error_response_simps [simp]:
  "resp_status (error_response err) = 500"
  "resp_body (error_response err) =
     JsonBody \<lparr>resp_response = None, resp_error = Some (error_message err), resp_success = False\<rparr>"
  by (simp_all add: error_response_def)

lemma success_response_simps [simp]:
  "resp_status (success_response t) = 200"
  "resp_body (success_response t) =
     JsonBody \<lparr>resp_response = t, resp_error = None, resp_success = True\<rparr>"
  by (simp_all add: success_response_def)

lemma geminiMessages_Nil [simp]: "geminiMessages [] fs = []"
  by (simp add: geminiMessages_def)









lemma inserts_of_roles [simp]:
  "ins_role (user_insert b u) = Some ''user''"
  "ins_role (assistant_insert b u t) = Some ''assistant''"
  by (simp_all add: user_insert_def assistant_insert_def)

lemmas db_defs =
  run_ops_def empty_db_def insert_message_def insert_conversation_def delete_conversation_def
  delete_message_def role_check_def conversation_exists_def

lemma valid_roles_insert_message:
  "valid_roles d \<Longrightarrow> insert_message p d = Inr d' \<Longrightarrow> valid_roles d'"
  by (auto simp: valid_roles_def insert_message_def role_check_def split: option.splits if_splits)

lemma valid_roles_exec_op: "valid_roles d \<Longrightarrow> valid_roles (exec_op d op)"
proof (cases op)
  case (InsertConversation cid t)
  then show "valid_roles d \<Longrightarrow> ?thesis"
    by (auto simp: valid_roles_def insert_conversation_def)
next
  case (InsertMessage p)
  then show "valid_roles d \<Longrightarrow> ?thesis"
    by (auto split: sum.splits dest: valid_roles_insert_message)
next
  case (DeleteConversation cid)
  then show "valid_roles d \<Longrightarrow> ?thesis"
    by (auto simp: valid_roles_def delete_conversation_def)
next
  case (DeleteMessage mid)
  then show "valid_roles d \<Longrightarrow> ?thesis"
    by (auto simp: valid_roles_def delete_message_def)
qed

lemma valid_roles_foldl: "valid_roles d \<Longrightarrow> valid_roles (foldl exec_op d ops)"
  by (induction ops arbitrary: d) (simp_all add: valid_roles_exec_op)

lemma valid_roles_run_ops: "valid_roles (run_ops ops)"
  unfolding run_ops_def by (rule valid_roles_foldl) (simp add: valid_roles_def empty_db_def)

lemma relay_inserts:
  assumes "serve_handler e req w = (resp, w')"
    and "DbInsert p r \<in> set (new_events w w')"
  shows "ins_role p = Some ''user'' \<or> ins_role p = Some ''assistant''"
  using assms(1)
proof (cases rule: serve_handler_cases)
  case preflight
  with assms(2) show ?thesis by (simp add: new_events_def)
next
  case (failed err)
  from failed(2) assms(2) show ?thesis
    by (cases rule: chat_pipeline_cases) (auto simp: new_events_def)
next
  case (succeeded t)
  from succeeded(2) assms(2) show ?thesis
    by (cases rule: chat_pipeline_cases) (auto simp: new_events_def)
qed

lemma relay_keeps_valid_roles:
  assumes "serve_handler e req w = (resp, w')" and "valid_roles (db w)"
  shows "valid_roles (db w')"
  using assms(1)
proof (cases rule: serve_handler_cases)
  case preflight
  with assms(2) show ?thesis by simp
next
  case (failed err)
  from failed(2) assms(2) show ?thesis
    by (cases rule: chat_pipeline_cases) (auto dest: valid_roles_insert_message)
next
  case (succeeded t)
  from succeeded(2) assms(2) show ?thesis
    by (cases rule: chat_pipeline_cases) (auto dest: valid_roles_insert_message)
qed

lemma single_match:
  "distinct (map f xs) \<Longrightarrow> x \<in> set xs \<Longrightarrow> length (filter (\<lambda>c. f c = f x) xs) = 1"
proof (induction xs)
  case Nil
  then show ?case by simp
next
  case (Cons a xs)
  show ?case
  proof (cases "x = a")
    case True
    from Cons.prems(1) have "f a \<notin> f ` set xs" by simp
    then have "filter (\<lambda>c. f c = f a) xs = []"
      unfolding filter_empty_conv by (metis imageI)
    with True show ?thesis by simp
  next
    case False
    with Cons.prems have "x \<in> set xs" "f a \<noteq> f x" by auto
    with Cons show ?thesis by simp
  qed
qed

lemma parents_exists:
  "distinct (map conv_id (conversations d)) \<Longrightarrow>
     length (parents m d) = 1 \<longleftrightarrow> conversation_exists (msg_conversation_id m) d"
proof
  assume "length (parents m d) = 1"
  then have "parents m d \<noteq> []" by auto
  then show "conversation_exists (msg_conversation_id m) d"
    by (force simp: parents_def conversation_exists_def filter_empty_conv)
next
  assume "distinct (map conv_id (conversations d))"
    and "conversation_exists (msg_conversation_id m) d"
  then show "length (parents m d) = 1"
    using single_match [of conv_id "conversations d"]
    by (auto simp: parents_def conversation_exists_def)
qed

lemma referential_integrity_iff:
  "referential_integrity d \<longleftrightarrow>
     distinct (map conv_id (conversations d)) \<and>
     (\<forall>m \<in> set (messages d). conversation_exists (msg_conversation_id m) d)"
  using parents_exists by (auto simp: referential_integrity_def)

lemma integrity_insert_message:
  "referential_integrity d \<Longrightarrow> insert_message p d = Inr d' \<Longrightarrow> referential_integrity d'"
  by (auto simp: referential_integrity_iff insert_message_def conversation_exists_def
      split: option.splits if_splits)

lemma integrity_insert_conversation:
  "referential_integrity d \<Longrightarrow> insert_conversation cid t d = Inr d' \<Longrightarrow>
     referential_integrity d'"
  by (auto simp: referential_integrity_iff insert_conversation_def conversation_exists_def
      split: if_splits)

lemma integrity_delete_conversation:
  "referential_integrity d \<Longrightarrow> referential_integrity (delete_conversation cid d)"
  by (auto simp: referential_integrity_iff delete_conversation_def conversation_exists_def
      distinct_map_filter)

lemma integrity_delete_message:
  "referential_integrity d \<Longrightarrow> referential_integrity (delete_message mid d)"
  by (auto simp: referential_integrity_iff delete_message_def conversation_exists_def)

lemma integrity_exec_op: "referential_integrity d \<Longrightarrow> referential_integrity (exec_op d op)"
  by (cases op)
    (auto split: sum.splits
       dest: integrity_insert_message integrity_insert_conversation
       intro: integrity_delete_conversation integrity_delete_message)

lemma integrity_foldl:
  "referential_integrity d \<Longrightarrow> referential_integrity (foldl exec_op d ops)"
  by (induction ops arbitrary: d) (simp_all add: integrity_exec_op)

lemma integrity_run_ops: "referential_integrity (run_ops ops)"
  unfolding run_ops_def
  by (rule integrity_foldl) (simp add: referential_integrity_def empty_db_def)











lemma upt_21: "[0..<21] = [0,1,2,3,4,5,6,7,8,9,10,11,12,13,14,15,16,17,18,19,20::nat]"
  by (simp add: upt_rec)

subsection \<open>The order of the steps\<close>

text \<open>
  C1. A request that the relay answers with \<^verbatim>\<open>success: true\<close> has gone through the
  steps in this order and through no other call: the JWT taken from the Authorization
  header is verified, the inbound message is stored, the history is queried, the
  generation API is called, the reply is stored; each of the two inserts succeeded,
  and the text returned to the caller is the text of the first part of the first
  candidate of the generation API's answer, which is also the content stored.
\<close>

theorem relay_success_order:
  assumes "serve_handler e req w = (resp, w')"
    and "resp_body resp = JsonBody j" and "resp_success j"
  shows "\<exists>b u d1 reply r data.
     req_body req = Body b \<and>
     truthy (req_authorization req) \<and> auth_user (verification e req) = Some u \<and>
     insert_message (user_insert b u) (db w) = Inr d1 \<and>
     fetch e (gemini_url (the (GOOGLE_GEMINI_API_KEY e)))
       (gemini_body (history_data e b u d1) b) = Inr r \<and>
     ok r \<and> body_json r = Inr data \<and> first_text data = Inr (Some reply) \<and>
     insert_message (assistant_insert b u (Some reply)) d1 = Inr (db w') \<and>
     new_events w w' =
       [AuthGetUser (presented_jwt req),
        DbInsert (user_insert b u) None,
        DbSelect (conversationId b) (user_id u) (history_error e),
        Fetch (gemini_url (the (GOOGLE_GEMINI_API_KEY e)))
          (gemini_body (history_data e b u d1) b),
        DbInsert (assistant_insert b u (Some reply)) None] \<and>
     resp_status resp = 200 \<and>
     j = \<lparr>resp_response = Some reply, resp_error = None, resp_success = True\<rparr>"
  using assms(1)
proof (cases rule: serve_handler_cases)
  case preflight
  with assms(2) show ?thesis by simp
next
  case (failed err)
  with assms(2,3) show ?thesis by (auto simp: error_response_def)
next
  case (succeeded t)
  from succeeded(2) show ?thesis
  proof (cases rule: chat_pipeline_cases)
    case (replied b u d1 r data t')
    from replied(13,14) have "t' = t" by simp
    from replied(14) obtain reply where "t' = Some reply"
      by (auto dest!: insert_message_content simp: assistant_insert_def)
    with replied succeeded(3) assms(2) show ?thesis
      by (auto simp: new_events_def success_response_def)
  qed simp_all
qed

theorem relay_success_order_witness:
  "resp_body (fst (serve_handler sample_env sample_request sample_world)) =
     JsonBody \<lparr>resp_response = Some ''Hello!'', resp_error = None, resp_success = True\<rparr> \<and>
   map step_of (new_events sample_world (snd (serve_handler sample_env sample_request sample_world))) =
     [Authenticate, StoreInbound, FetchHistory, Generate, StoreReply]"
proof -
  have run: "serve_handler sample_env sample_request sample_world =
      (fst (serve_handler sample_env sample_request sample_world),
       snd (serve_handler sample_env sample_request sample_world))"
    by simp
  have body: "resp_body (fst (serve_handler sample_env sample_request sample_world)) =
     JsonBody \<lparr>resp_response = Some ''Hello!'', resp_error = None, resp_success = True\<rparr>"
    by (simp add: relay_defs sample_defs)
  from relay_success_order [OF run body]
  show ?thesis using body by (auto simp: user_insert_def assistant_insert_def)
qed

subsection \<open>Authentication before persistence\<close>




subsection \<open>No rollback when generation fails\<close>

text \<open>
  C8. When the generation API answers the relay's call with a status outside 200 to 299,
  the relay returns status 500 with \<^verbatim>\<open>success: false\<close> and the API's status and text
  in the error message, and the inbound message stored before the call is still
  there: the database after the request is the database before it with exactly that
  one row appended.
\<close>

theorem generation_failure_keeps_inbound_message:
  assumes "serve_handler e req w = (resp, w')"
    and "Fetch url g \<in> set (new_events w w')"
    and "fetch e url g = Inr r" and "\<not> ok r"
  shows "resp_status resp = 500 \<and>
         resp_body resp = JsonBody
           \<lparr>resp_response = None,
            resp_error = Some (''Google Gemini API error: '' @ string_of_nat (status r) @ '' ''
                                @ body_text r),
            resp_success = False\<rparr> \<and>
         (\<exists>b u. req_body req = Body b \<and> auth_user (verification e req) = Some u \<and>
            DbInsert (user_insert b u) None \<in> set (new_events w w') \<and>
            insert_message (user_insert b u) (db w) = Inr (db w') \<and>
            messages (db w') = messages (db w) @
              [\<lparr>msg_id = next_id (db w), msg_conversation_id = the (conversationId b),
                msg_content = or_else (message b) ''[Image analysis requested]'',
                msg_role = ''user'', msg_created_at = now (db w),
                msg_user_id = Some (user_id u)\<rparr>])"
  using assms(1)
proof (cases rule: serve_handler_cases)
  case preflight
  with assms(2) show ?thesis by (simp add: new_events_def)
next
  case (failed err)
  from failed(2) show ?thesis
  proof (cases rule: chat_pipeline_cases)
    case (generation_failed b u d1 err')
    from generation_failed(11) assms(2) have
      "url = gemini_url (the (GOOGLE_GEMINI_API_KEY e))" and
      "g = gemini_body (history_data e b u d1) b"
      by (auto simp: new_events_def)
    with generation_failed(12) [of r] assms(3,4)
    have "err' = Error (''Google Gemini API error: '' @ string_of_nat (status r) @ '' ''
                         @ body_text r)" by simp
    with generation_failed failed(3) insert_message_appends(1) [OF generation_failed(7)]
    show ?thesis by (auto simp: new_events_def user_insert_def)
  next
    case (reply_rejected b u d1 resp' data t err')
    with assms(2,3,4) show ?thesis by (auto simp: new_events_def)
  qed (use assms(2) in \<open>auto simp: new_events_def\<close>)
next
  case (succeeded t)
  from succeeded(2) assms(2,3,4) show ?thesis
    by (cases rule: chat_pipeline_cases) (auto simp: new_events_def)
qed

theorem generation_failure_keeps_inbound_message_witness:
  "Fetch (gemini_url ''key'') (gemini_body (Some [\<lparr>h_content = ''hello'', h_role = ''user''\<rparr>]) sample_body)
     \<in> set (new_events sample_world (snd (serve_handler gemini_down sample_request sample_world))) \<and>
   \<not> ok unavailable \<and>
   resp_status (fst (serve_handler gemini_down sample_request sample_world)) = 500 \<and>
   map msg_content (messages (db (snd (serve_handler gemini_down sample_request sample_world))))
     = [''hello'']"
proof -
  have run: "serve_handler gemini_down sample_request sample_world =
      (fst (serve_handler gemini_down sample_request sample_world),
       snd (serve_handler gemini_down sample_request sample_world))"
    by simp
  have called: "Fetch (gemini_url ''key'')
        (gemini_body (Some [\<lparr>h_content = ''hello'', h_role = ''user''\<rparr>]) sample_body)
     \<in> set (new_events sample_world (snd (serve_handler gemini_down sample_request sample_world)))"
    by (simp add: relay_defs sample_defs gemini_down_def unavailable_def new_events_def
        history_query_def)
  have answer: "fetch gemini_down (gemini_url ''key'')
        (gemini_body (Some [\<lparr>h_content = ''hello'', h_role = ''user''\<rparr>]) sample_body)
      = Inr unavailable"
    by (simp add: gemini_down_def sample_env_def)
  have down: "\<not> ok unavailable"
    by (simp add: ok_def unavailable_def)
  from generation_failure_keeps_inbound_message [OF run called answer down] called down
  show ?thesis
    by (auto simp: sample_world_def sample_db_def sample_request_def sample_body_def or_else_def)
qed

subsection \<open>A failed history query\<close>



subsection \<open>Requests without text\<close>






subsection \<open>Catch and report\<close>

text \<open>
  C4. For a request that enters the \<^verbatim>\<open>try\<close> block: whatever the pipeline throws, the
  relay answers with status 500 and the JSON body \<^verbatim>\<open>{ error: error.message,
  success: false }\<close>, and the state is the one reached when the error was thrown. An
  unparsable body, a missing Authorization header, a rejected JWT, a missing API key,
  an insert that returns an error and a generation API answer that is not ok each make
  the pipeline throw. No step is made twice: the calls of one request are pairwise
  different steps.
\<close>

theorem failure_is_reported_once:
  assumes "serve_handler e req w = (resp, w')" and "req_method req \<noteq> ''OPTIONS''"
  shows
    "(\<forall>err w1. chat_pipeline e req w = (Inl err, w1) \<longrightarrow>
        w' = w1 \<and> resp_status resp = 500 \<and>
        resp_body resp = JsonBody \<lparr>resp_response = None, resp_error = Some (error_message err),
                                    resp_success = False\<rparr>) \<and>
     (req_body req = BodyInvalid \<or> \<not> truthy (req_authorization req) \<or> jwt_rejected e req \<or>
      \<not> truthy (GOOGLE_GEMINI_API_KEY e) \<or>
      (\<exists>p err. DbInsert p (Some err) \<in> set (new_events w w')) \<or>
      (\<exists>url g r. Fetch url g \<in> set (new_events w w') \<and> fetch e url g = Inr r \<and> \<not> ok r)
        \<longrightarrow> (\<exists>err. fst (chat_pipeline e req w) = Inl err)) \<and>
     distinct (map step_of (new_events w w'))"
  using assms(1)
proof (cases rule: serve_handler_cases)
  case preflight
  with assms(2) show ?thesis by simp
next
  case (failed err)
  from failed(2) have "distinct (map step_of (new_events w w'))"
    by (cases rule: chat_pipeline_cases) (auto simp: new_events_def)
  with failed show ?thesis by simp
next
  case (succeeded t)
  from succeeded(2) have
    "distinct (map step_of (new_events w w')) \<and>
     \<not> (req_body req = BodyInvalid \<or> \<not> truthy (req_authorization req) \<or> jwt_rejected e req \<or>
      \<not> truthy (GOOGLE_GEMINI_API_KEY e) \<or>
      (\<exists>p err. DbInsert p (Some err) \<in> set (new_events w w')) \<or>
      (\<exists>url g r. Fetch url g \<in> set (new_events w w') \<and> fetch e url g = Inr r \<and> \<not> ok r))"
    by (cases rule: chat_pipeline_cases) (auto simp: new_events_def)
  with succeeded show ?thesis by simp
qed

theorem failure_is_reported_once_witness:
  "req_method sample_request \<noteq> ''OPTIONS'' \<and>
   (\<exists>url g r. Fetch url g
       \<in> set (new_events sample_world (snd (serve_handler gemini_down sample_request sample_world))) \<and>
      fetch gemini_down url g = Inr r \<and> \<not> ok r) \<and>
   resp_status (fst (serve_handler gemini_down sample_request sample_world)) = 500 \<and>
   resp_body (fst (serve_handler gemini_down sample_request sample_world)) =
     JsonBody \<lparr>resp_response = None,
               resp_error = Some ''Google Gemini API error: 503 overloaded'',
               resp_success = False\<rparr> \<and>
   map step_of (new_events sample_world (snd (serve_handler gemini_down sample_request sample_world)))
     = [Authenticate, StoreInbound, FetchHistory, Generate]"
proof -
  have run: "serve_handler gemini_down sample_request sample_world =
      (fst (serve_handler gemini_down sample_request sample_world),
       snd (serve_handler gemini_down sample_request sample_world))"
    by simp
  have post: "req_method sample_request \<noteq> ''OPTIONS''"
    by (simp add: sample_request_def)
  have called: "Fetch (gemini_url ''key'')
        (gemini_body (Some [\<lparr>h_content = ''hello'', h_role = ''user''\<rparr>]) sample_body)
     \<in> set (new_events sample_world (snd (serve_handler gemini_down sample_request sample_world)))"
    by (simp add: relay_defs sample_defs gemini_down_def unavailable_def new_events_def
        history_query_def)
  have down: "fetch gemini_down (gemini_url ''key'')
        (gemini_body (Some [\<lparr>h_content = ''hello'', h_role = ''user''\<rparr>]) sample_body)
      = Inr unavailable" "\<not> ok unavailable"
    by (simp_all add: gemini_down_def sample_env_def ok_def unavailable_def)
  have thrown: "fst (chat_pipeline gemini_down sample_request sample_world) =
      Inl (Error ''Google Gemini API error: 503 overloaded'')"
    by (simp add: relay_defs sample_defs gemini_down_def unavailable_def history_query_def
        string_of_nat.simps)
  have steps: "map step_of
      (new_events sample_world (snd (serve_handler gemini_down sample_request sample_world)))
     = [Authenticate, StoreInbound, FetchHistory, Generate]"
    by (simp add: relay_defs sample_defs gemini_down_def unavailable_def new_events_def
        history_query_def)
  from failure_is_reported_once [OF run post] thrown
  have "resp_status (fst (serve_handler gemini_down sample_request sample_world)) = 500 \<and>
    resp_body (fst (serve_handler gemini_down sample_request sample_world)) =
     JsonBody \<lparr>resp_response = None,
               resp_error = Some ''Google Gemini API error: 503 overloaded'',
               resp_success = False\<rparr>"
    by (cases "chat_pipeline gemini_down sample_request sample_world") auto
  with post called down steps show ?thesis by blast
qed

subsection \<open>The role of a message\<close>

text \<open>
  C5. Every message row of a database reached by inserts and deletes has the role
  \<^verbatim>\<open>user\<close> or \<^verbatim>\<open>assistant\<close>; an insert with any other role is rejected and
  leaves the table as it was; every insert the relay makes carries one of the two
  roles, and a request keeps the roles of the stored messages within the set.
\<close>

theorem message_roles:
  "valid_roles (run_ops ops) \<and>
   (ins_role p = Some r \<and> r \<noteq> ''user'' \<and> r \<noteq> ''assistant'' \<longrightarrow>
      (\<exists>err. insert_message p d = Inl err) \<and> exec_op d (InsertMessage p) = d) \<and>
   (serve_handler e req w = (resp, w') \<longrightarrow>
      (\<forall>q res. DbInsert q res \<in> set (new_events w w') \<longrightarrow>
         ins_role q = Some ''user'' \<or> ins_role q = Some ''assistant'') \<and>
      (valid_roles (db w) \<longrightarrow> valid_roles (db w')))"
proof -
  have "(\<exists>err. insert_message p d = Inl err) \<and> exec_op d (InsertMessage p) = d"
    if "ins_role p = Some r" "r \<noteq> ''user''" "r \<noteq> ''assistant''"
    using that by (auto simp: insert_message_def role_check_def split: option.splits)
  then show ?thesis
    using valid_roles_run_ops relay_inserts relay_keeps_valid_roles by blast
qed

theorem message_roles_witness:
  "ins_role system_insert = Some ''system'' \<and>
   insert_message system_insert sample_db = Inl (CheckViolation ''messages_role_check'') \<and>
   exec_op sample_db (InsertMessage system_insert) = sample_db \<and>
   map msg_role (messages (run_ops sample_ops)) = [''user''] \<and>
   valid_roles (run_ops sample_ops) \<and>
   valid_roles (db sample_world) \<and>
   map msg_role (messages (db (snd (serve_handler sample_env sample_request sample_world))))
     = [''user'', ''assistant''] \<and>
   valid_roles (db (snd (serve_handler sample_env sample_request sample_world)))"
proof -
  have run: "serve_handler sample_env sample_request sample_world =
      (fst (serve_handler sample_env sample_request sample_world),
       snd (serve_handler sample_env sample_request sample_world))"
    by simp
  have role: "ins_role system_insert = Some ''system''" "''system'' \<noteq> ''user''"
    "''system'' \<noteq> ''assistant''"
    by (simp_all add: system_insert_def)
  have rejected: "insert_message system_insert sample_db = Inl (CheckViolation ''messages_role_check'')"
    by (simp add: system_insert_def db_defs)
  have stored: "map msg_role (messages (run_ops sample_ops)) = [''user'']"
    by (simp add: sample_ops_def populate_def system_insert_def db_defs)
  have before: "valid_roles (db sample_world)"
    by (simp add: valid_roles_def sample_world_def sample_db_def)
  have after: "map msg_role (messages (db (snd (serve_handler sample_env sample_request sample_world))))
     = [''user'', ''assistant'']"
    by (simp add: relay_defs sample_defs)
  from message_roles [of sample_ops system_insert "''system''" sample_db sample_env sample_request
      sample_world "fst (serve_handler sample_env sample_request sample_world)"
      "snd (serve_handler sample_env sample_request sample_world)"]
    run role rejected stored before after
  show ?thesis by simp
qed

subsection \<open>Messages and their conversation\<close>

text \<open>
  C6. In every database reached by inserts and deletes the conversation ids are
  pairwise different and each message points at exactly one conversation row. An insert
  without a conversation id, or with the id of no conversation, is rejected. Deleting a
  conversation removes exactly the messages that point at it, and after deleting a
  conversation or a message every remaining message still points at an existing
  conversation.
\<close>

theorem message_belongs_to_one_conversation:
  "referential_integrity (run_ops ops) \<and>
   (\<forall>m \<in> set (messages (run_ops ops)). conversation_exists (msg_conversation_id m) (run_ops ops)) \<and>
   (ins_conversation_id p = None \<longrightarrow>
      insert_message p d = Inl (NotNullViolation ''conversation_id'')) \<and>
   (\<forall>c. ins_conversation_id p = Some c \<and> \<not> conversation_exists c d \<longrightarrow>
      (\<exists>err. insert_message p d = Inl err)) \<and>
   (\<forall>m \<in> set (messages (delete_conversation cid d)). msg_conversation_id m \<noteq> cid) \<and>
   (\<forall>m \<in> set (messages d). msg_conversation_id m \<noteq> cid \<longrightarrow>
      m \<in> set (messages (delete_conversation cid d))) \<and>
   (referential_integrity d \<longrightarrow>
      referential_integrity (delete_conversation cid d) \<and>
      (\<forall>m \<in> set (messages (delete_conversation cid d)).
         conversation_exists (msg_conversation_id m) (delete_conversation cid d)) \<and>
      referential_integrity (delete_message mid d))"
proof -
  have reach: "referential_integrity (run_ops ops)"
    by (rule integrity_run_ops)
  then have refs: "\<forall>m \<in> set (messages (run_ops ops)).
      conversation_exists (msg_conversation_id m) (run_ops ops)"
    by (simp add: referential_integrity_iff)
  have null: "insert_message p d = Inl (NotNullViolation ''conversation_id'')"
    if "ins_conversation_id p = None"
    using that by (simp add: insert_message_def)
  have dangling: "\<exists>err. insert_message p d = Inl err"
    if "ins_conversation_id p = Some c" "\<not> conversation_exists c d" for c
    using that by (simp add: insert_message_def split: option.splits)
  have cascade: "\<forall>m \<in> set (messages (delete_conversation cid d)). msg_conversation_id m \<noteq> cid"
    and others: "\<forall>m \<in> set (messages d). msg_conversation_id m \<noteq> cid \<longrightarrow>
      m \<in> set (messages (delete_conversation cid d))"
    by (simp_all add: delete_conversation_def)
  have kept: "referential_integrity (delete_conversation cid d) \<and>
      (\<forall>m \<in> set (messages (delete_conversation cid d)).
         conversation_exists (msg_conversation_id m) (delete_conversation cid d)) \<and>
      referential_integrity (delete_message mid d)"
    if "referential_integrity d"
    using integrity_delete_conversation [OF that, of cid] integrity_delete_message [OF that, of mid]
    by (simp add: referential_integrity_iff)
  from reach refs null dangling cascade others kept show ?thesis by blast
qed


theorem message_belongs_to_one_conversation_witness:
  "referential_integrity (run_ops populate) \<and>
   map msg_conversation_id (messages (run_ops populate)) = [''c1'', ''c2''] \<and>
   ins_conversation_id orphan_insert = None \<and>
   insert_message orphan_insert (run_ops populate) = Inl (NotNullViolation ''conversation_id'') \<and>
   ins_conversation_id dangling_insert = Some ''c9'' \<and>
   \<not> conversation_exists ''c9'' (run_ops populate) \<and>
   insert_message dangling_insert (run_ops populate) =
     Inl (ForeignKeyViolation ''messages_conversation_id_fkey'') \<and>
   map conv_id (conversations (delete_conversation ''c1'' (run_ops populate))) = [''c2''] \<and>
   map msg_conversation_id (messages (delete_conversation ''c1'' (run_ops populate))) = [''c2''] \<and>
   referential_integrity (delete_conversation ''c1'' (run_ops populate)) \<and>
   referential_integrity (delete_message 0 (run_ops populate))"
proof -
  have rows: "map msg_conversation_id (messages (run_ops populate)) = [''c1'', ''c2'']"
    "map conv_id (conversations (delete_conversation ''c1'' (run_ops populate))) = [''c2'']"
    "map msg_conversation_id (messages (delete_conversation ''c1'' (run_ops populate))) = [''c2'']"
    by (simp_all add: populate_def system_insert_def db_defs)
  have orphan: "ins_conversation_id orphan_insert = None"
    and dangling: "ins_conversation_id dangling_insert = Some ''c9''"
      "\<not> conversation_exists ''c9'' (run_ops populate)"
      "insert_message dangling_insert (run_ops populate) =
         Inl (ForeignKeyViolation ''messages_conversation_id_fkey'')"
    by (simp_all add: orphan_insert_def dangling_insert_def populate_def system_insert_def db_defs)
  from message_belongs_to_one_conversation [of populate orphan_insert "run_ops populate" "''c1''" 0]
    message_belongs_to_one_conversation [of populate dangling_insert "run_ops populate" "''c1''" 0]
    rows orphan dangling
  show ?thesis by simp
qed

subsection \<open>Which messages are sent as context\<close>

text \<open>
  C2. The history query orders the user's messages of the conversation by creation time,
  oldest first, and keeps the first 20. For a conversation of 21 messages numbered m0 to m20
  in the order of their creation it returns the messages m0 to m19: the newest message,
  m20, is not among them. A request made in that conversation sends the messages
  m0 to m19 as context, followed by the current message; the message the relay has just
  stored for this request is not part of the context either.
\<close>

theorem oldest_twenty_are_fetched:
  "length (messages long_conversation) = 21 \<and>
   msg_content (last (messages long_conversation)) = ''m20'' \<and>
   msg_created_at (last (messages long_conversation)) = 20 \<and>
   map h_content (history_query (Some ''c1'') ''alice'' long_conversation) =
     [''m0'', ''m1'', ''m2'', ''m3'', ''m4'', ''m5'', ''m6'', ''m7'', ''m8'', ''m9'', ''m10'', ''m11'', ''m12'',
      ''m13'', ''m14'', ''m15'', ''m16'', ''m17'', ''m18'', ''m19''] \<and>
   map g_parts (sent_contents (trace (snd (serve_handler sample_env sample_request long_world)))) =
     [[Text ''m0''], [Text ''m1''], [Text ''m2''], [Text ''m3''], [Text ''m4''], [Text ''m5''],
      [Text ''m6''], [Text ''m7''], [Text ''m8''], [Text ''m9''], [Text ''m10''], [Text ''m11''],
      [Text ''m12''], [Text ''m13''], [Text ''m14''], [Text ''m15''], [Text ''m16''], [Text ''m17''],
      [Text ''m18''], [Text ''m19''], [Text ''hello'']]"
proof -
  have query: "map h_content (history_query (Some ''c1'') ''alice'' long_conversation) =
     [''m0'', ''m1'', ''m2'', ''m3'', ''m4'', ''m5'', ''m6'', ''m7'', ''m8'', ''m9'', ''m10'', ''m11'', ''m12'',
      ''m13'', ''m14'', ''m15'', ''m16'', ''m17'', ''m18'', ''m19'']"
    by (simp add: long_conversation_def sample_db_def numbered_message_def history_query_def
      upt_21 string_of_nat.simps)
  have rows: "length (messages long_conversation) = 21 \<and>
   msg_content (last (messages long_conversation)) = ''m20'' \<and>
   msg_created_at (last (messages long_conversation)) = 20"
    by (simp add: long_conversation_def numbered_message_def upt_21 string_of_nat.simps)
  have sent: "map g_parts
      (sent_contents (trace (snd (serve_handler sample_env sample_request long_world)))) =
     [[Text ''m0''], [Text ''m1''], [Text ''m2''], [Text ''m3''], [Text ''m4''], [Text ''m5''],
      [Text ''m6''], [Text ''m7''], [Text ''m8''], [Text ''m9''], [Text ''m10''], [Text ''m11''],
      [Text ''m12''], [Text ''m13''], [Text ''m14''], [Text ''m15''], [Text ''m16''], [Text ''m17''],
      [Text ''m18''], [Text ''m19''], [Text ''hello'']]"
    by (simp add: relay_defs sample_defs long_world_def long_conversation_def
        numbered_message_def history_query_def gemini_body_def geminiMessages_def
        currentMessageParts_def attached_images_def upt_21 string_of_nat.simps)
  from rows query sent show ?thesis by simp
qed

subsection \<open>Whose messages a request can see\<close>





end
